theory Spec2Isabelle
  imports Complex_Main "HOL-Library.AList"
begin

section \<open>JavaScript values\<close>

text \<open>
  The server of \<^verbatim>\<open>src/server.ts\<close> (compiled to \<^verbatim>\<open>src/src/dist/server.js\<close>) handles JSON
  values. A finite number is the rational it denotes; \<^verbatim>\<open>JSON.parse\<close> can also give the two
  infinities (\<^verbatim>\<open>1e999\<close>). An object is the list of its own properties, keys distinct.
\<close>

datatype jsnum = Fin rat | PosInfinity | NegInfinity

datatype jsval =
    JUndefined
  | JNull
  | JBool bool
  | JNum jsnum
  | JStr string
  | JArr "jsval list"
  | JObj "(string \<times> jsval) list"

text \<open>What \<^verbatim>\<open>!v\<close> tests: \<^verbatim>\<open>undefined\<close>, \<^verbatim>\<open>null\<close>, \<^verbatim>\<open>false\<close>, zero and the empty string
  are falsy, everything else is truthy.\<close>

fun truthy :: "jsval \<Rightarrow> bool" where
  "truthy JUndefined = False"
| "truthy JNull = False"
| "truthy (JBool b) = b"
| "truthy (JNum n) = (n \<noteq> Fin 0)"
| "truthy (JStr s) = (s \<noteq> [])"
| "truthy (JArr _) = True"
| "truthy (JObj _) = True"

fun is_string :: "jsval \<Rightarrow> bool" where
  "is_string (JStr _) = True"
| "is_string _ = False"

fun is_number :: "jsval \<Rightarrow> bool" where
  "is_number (JNum _) = True"
| "is_number _ = False"

fun isArray :: "jsval \<Rightarrow> bool" where
  "isArray (JArr _) = True"
| "isArray _ = False"

text \<open>A response: the status (200 unless \<^verbatim>\<open>res.status\<close> was called) and the value handed to
  \<^verbatim>\<open>res.json\<close>.\<close>

record response =
  status :: nat
  body :: jsval

definition error_json :: "nat \<Rightarrow> string \<Rightarrow> response" where
  "error_json st msg = \<lparr>status = st, body = JObj [(''error'', JStr msg)]\<rparr>"

section \<open>Rate limiter\<close>

definition RATE_LIMIT_WINDOW :: int where
  "RATE_LIMIT_WINDOW = 60 * 1000"

definition MAX_REQUESTS_PER_WINDOW :: int where
  "MAX_REQUESTS_PER_WINDOW = 30"

record limit_entry =
  count :: int
  resetTime :: int

text \<open>The store \<^verbatim>\<open>requestCounts\<close>: a \<^verbatim>\<open>Map\<close> from the client key to its entry.\<close>

type_synonym requestCounts = "string \<rightharpoonup> limit_entry"

text \<open>What the limiter reads of a request: \<^verbatim>\<open>req.ip\<close> and \<^verbatim>\<open>req.socket.remoteAddress\<close>, each
  possibly undefined.\<close>

record peer =
  ip :: "string option"
  remoteAddress :: "string option"

text \<open>\<^verbatim>\<open>req.ip || req.socket.remoteAddress || "unknown"\<close>: an undefined or empty string is
  falsy.\<close>

definition clientKey :: "peer \<Rightarrow> string" where
  "clientKey p =
     (case ip p of
        Some a \<Rightarrow> if a \<noteq> [] then a else
          (case remoteAddress p of Some b \<Rightarrow> if b \<noteq> [] then b else ''unknown'' | None \<Rightarrow> ''unknown'')
      | None \<Rightarrow>
          (case remoteAddress p of Some b \<Rightarrow> if b \<noteq> [] then b else ''unknown'' | None \<Rightarrow> ''unknown''))"

text \<open>A middleware either calls \<^verbatim>\<open>next()\<close> or sends a response.\<close>

datatype gate = Next | Sent response

definition too_many_requests :: response where
  "too_many_requests = error_json 429 ''Too many requests. Please try again later.''"

text \<open>\<^verbatim>\<open>rateLimiter\<close>, with the store passed in and returned and \<^verbatim>\<open>Date.now()\<close> as \<open>now\<close>.\<close>

definition rateLimiter :: "requestCounts \<Rightarrow> peer \<Rightarrow> int \<Rightarrow> gate \<times> requestCounts" where
  "rateLimiter store p now =
     (let k = clientKey p in
      case store k of
        None \<Rightarrow> (Next, store(k \<mapsto> \<lparr>count = 1, resetTime = now + RATE_LIMIT_WINDOW\<rparr>))
      | Some userLimit \<Rightarrow>
          if now > resetTime userLimit
          then (Next, store(k \<mapsto> \<lparr>count = 1, resetTime = now + RATE_LIMIT_WINDOW\<rparr>))
          else if count userLimit < MAX_REQUESTS_PER_WINDOW
          then (Next, store(k \<mapsto> userLimit\<lparr>count := count userLimit + 1\<rparr>))
          else (Sent too_many_requests, store))"

text \<open>The limiter over a sequence of requests, each with the time it arrives at: the
  decisions in order, and the store left behind.\<close>

fun serve :: "requestCounts \<Rightarrow> (peer \<times> int) list \<Rightarrow> gate list \<times> requestCounts" where
  "serve store [] = ([], store)"
| "serve store ((p, now) # rest) =
     (let (g, store') = rateLimiter store p now;
          (gs, store'') = serve store' rest
      in (g # gs, store''))"

text \<open>The decisions taken for the requests of one key, in order.\<close>

fun decisions_of :: "string \<Rightarrow> (peer \<times> int) list \<Rightarrow> gate list \<Rightarrow> gate list" where
  "decisions_of k ((p, now) # rest) (g # gs) =
     (if clientKey p = k then g # decisions_of k rest gs else decisions_of k rest gs)"
| "decisions_of k _ _ = []"

text \<open>The decision the window gives its \<open>i\<close>-th request, counting from 0.\<close>

definition window_decision :: "nat \<Rightarrow> gate" where
  "window_decision i =
     (if i < 30 then Next
      else Sent \<lparr>status = 429,
                 body = JObj [(''error'', JStr ''Too many requests. Please try again later.'')]\<rparr>)"

section \<open>Middleware\<close>

text \<open>
  Three middlewares stand before every route, in this order: \<^verbatim>\<open>cors()\<close>,
  \<^verbatim>\<open>express.json()\<close> and \<^verbatim>\<open>rateLimiter\<close>. For a \<^verbatim>\<open>GET\<close> or \<^verbatim>\<open>POST\<close> request
  \<^verbatim>\<open>cors()\<close> adds headers and calls \<^verbatim>\<open>next()\<close>. \<^verbatim>\<open>express.json()\<close> either passes the
  request on with \<^verbatim>\<open>req.body\<close> set (\<open>Accepted\<close>; \<^verbatim>\<open>undefined\<close> or \<^verbatim>\<open>{}\<close> when it parsed
  no body), or fails (\<open>Refused\<close>: a malformed or aborted body 400, a body too large 413,
  an unsupported charset or encoding 415); the framework then answers with an error page of
  that status, and neither \<^verbatim>\<open>rateLimiter\<close> nor the route runs.
\<close>

datatype parsed_body = Accepted jsval | Refused nat

text \<open>What the client gets: a JSON response of the server's code, or the framework's error
  page with its status.\<close>

datatype answer = Replied response | ErrorPage nat

fun answer_status :: "answer \<Rightarrow> nat" where
  "answer_status (Replied r) = status r"
| "answer_status (ErrorPage st) = st"

text \<open>A route behind the three middlewares. \<open>handler\<close> is the route's handler on
  \<^verbatim>\<open>req.body\<close>: its response and the outbound calls it makes. It runs only when the limiter
  calls \<^verbatim>\<open>next()\<close>.\<close>

definition behind_middleware ::
  "parsed_body \<Rightarrow> requestCounts \<Rightarrow> peer \<Rightarrow> int \<Rightarrow> (jsval \<Rightarrow> response \<times> 'call list) \<Rightarrow>
     (answer \<times> 'call list) \<times> requestCounts" where
  "behind_middleware parsed store p now handler =
     (case parsed of
        Refused st \<Rightarrow> ((ErrorPage st, []), store)
      | Accepted reqBody \<Rightarrow>
          (case rateLimiter store p now of
             (Next, store') \<Rightarrow> ((Replied (fst (handler reqBody)), snd (handler reqBody)), store')
           | (Sent r, store') \<Rightarrow> ((Replied r, []), store')))"

section \<open>Meal estimate\<close>

text \<open>The environment variables the server reads at start.\<close>

record environment =
  env_GROQ_API_KEY :: "string option"
  env_USDA_API_KEY :: "string option"

text \<open>\<^verbatim>\<open>process.env.GROQ_API_KEY || ""\<close> and \<^verbatim>\<open>process.env.USDA_API_KEY || "DEMO_KEY"\<close>.\<close>

definition GROQ_API_KEY :: "environment \<Rightarrow> string" where
  "GROQ_API_KEY env = (case env_GROQ_API_KEY env of Some k \<Rightarrow> k | None \<Rightarrow> [])"

definition USDA_API_KEY :: "environment \<Rightarrow> string" where
  "USDA_API_KEY env =
     (case env_USDA_API_KEY env of Some k \<Rightarrow> if k \<noteq> [] then k else ''DEMO_KEY'' | None \<Rightarrow> ''DEMO_KEY'')"

text \<open>
  What the JavaScript engine does and the repository does not define is a parameter of the
  model: the binary64 product and quotient of two numbers (\<^verbatim>\<open>*\<close> and \<^verbatim>\<open>/\<close>), and the
  messages of three errors it raises: the \<^verbatim>\<open>TypeError\<close> of reading the named property of
  \<^verbatim>\<open>null\<close> or \<^verbatim>\<open>undefined\<close>, the \<^verbatim>\<open>TypeError\<close> of converting to a string an object
  that has no callable \<^verbatim>\<open>toString\<close> or \<^verbatim>\<open>valueOf\<close>, and the \<^verbatim>\<open>URIError\<close> of
  \<^verbatim>\<open>encodeURIComponent\<close> on a lone surrogate.
\<close>

record platform =
  times :: "jsnum \<Rightarrow> jsnum \<Rightarrow> jsnum"
  over :: "jsnum \<Rightarrow> jsnum \<Rightarrow> jsnum"
  typeError :: "string \<Rightarrow> string"
  notPrimitive :: string
  uriMalformed :: string

text \<open>A thrown value, as the \<^verbatim>\<open>catch\<close> blocks see it: an \<^verbatim>\<open>Error\<close> with its message, or
  something that is not an \<^verbatim>\<open>Error\<close>.\<close>

datatype thrown = ErrorObj string | NotAnError

fun nullish :: "jsval \<Rightarrow> bool" where
  "nullish JUndefined = True"
| "nullish JNull = True"
| "nullish _ = False"

text \<open>\<^verbatim>\<open>v.k\<close> for a value that is neither \<^verbatim>\<open>null\<close> nor \<^verbatim>\<open>undefined\<close>, and a key that no
  prototype defines (all the keys the server reads): the own property, or \<^verbatim>\<open>undefined\<close>.\<close>

fun lookup :: "jsval \<Rightarrow> string \<Rightarrow> jsval" where
  "lookup (JObj kvs) k = (case map_of kvs k of Some v \<Rightarrow> v | None \<Rightarrow> JUndefined)"
| "lookup _ k = JUndefined"

text \<open>\<^verbatim>\<open>v.k\<close> in general: reading a property of \<^verbatim>\<open>null\<close> or \<^verbatim>\<open>undefined\<close> throws.\<close>

definition read_property :: "platform \<Rightarrow> jsval \<Rightarrow> string \<Rightarrow> thrown + jsval" where
  "read_property P v k = (if nullish v then Inl (ErrorObj (typeError P k)) else Inr (lookup v k))"

text \<open>The elements of an array, the number a value is and the own properties of an object,
  each used only after \<^verbatim>\<open>Array.isArray\<close> or \<^verbatim>\<open>typeof\<close> has said that the value is one
  (\<open>checked_item_is_object\<close> below: a value with a string \<^verbatim>\<open>name\<close> is an object).\<close>

fun elements :: "jsval \<Rightarrow> jsval list" where
  "elements (JArr xs) = xs"

fun the_num :: "jsval \<Rightarrow> jsnum" where
  "the_num (JNum n) = n"

fun own_props :: "jsval \<Rightarrow> (string \<times> jsval) list" where
  "own_props (JObj kvs) = kvs"

text \<open>\<^verbatim>\<open>Math.round\<close>: the nearest integer, a tie going up; exact on every finite number.\<close>

fun Math_round :: "jsnum \<Rightarrow> jsnum" where
  "Math_round (Fin q) = Fin (of_int \<lfloor>q + 1 / 2\<rfloor>)"
| "Math_round PosInfinity = PosInfinity"
| "Math_round NegInfinity = NegInfinity"

text \<open>\<^verbatim>\<open>Math.round(x * 10) / 10\<close>.\<close>

definition round_tenth :: "platform \<Rightarrow> jsnum \<Rightarrow> jsnum" where
  "round_tenth P x = over P (Math_round (times P x (Fin 10))) (Fin 10)"

text \<open>What the completion provider's call comes to. \<open>CreateFails\<close>: the awaited call, or
  reading \<^verbatim>\<open>choices[0]\<close> of its result, throws. \<open>NoContent\<close>: the first choice's content is
  undefined, null or empty. \<open>BadJSON\<close>: \<^verbatim>\<open>JSON.parse\<close> throws on the content. \<open>Parsed\<close>:
  \<^verbatim>\<open>JSON.parse\<close> gives this value.\<close>

datatype ai_reply = CreateFails thrown | NoContent | BadJSON thrown | Parsed jsval

text \<open>The first validation: the shape of the parsed object.\<close>

definition check_estimate :: "platform \<Rightarrow> jsval \<Rightarrow> thrown option" where
  "check_estimate P parsed =
     (if nullish parsed then Some (ErrorObj (typeError P ''description''))
      else if \<not> is_string (lookup parsed ''description'') \<or>
              \<not> isArray (lookup parsed ''items'') \<or>
              \<not> is_number (lookup parsed ''total_calories'') \<or>
              \<not> is_number (lookup parsed ''protein'') \<or>
              \<not> is_number (lookup parsed ''carbs'') \<or>
              \<not> is_number (lookup parsed ''fat'') \<or>
              \<not> isArray (lookup parsed ''assumptions'')
      then Some (ErrorObj ''Invalid response format from AI service'')
      else None)"

text \<open>The second validation: the loop over \<^verbatim>\<open>parsed.items\<close>, stopping at the first item
  that throws.\<close>

fun check_items :: "platform \<Rightarrow> jsval list \<Rightarrow> thrown option" where
  "check_items P [] = None"
| "check_items P (item # rest) =
     (if nullish item then Some (ErrorObj (typeError P ''name''))
      else if \<not> is_string (lookup item ''name'') \<or>
              \<not> is_string (lookup item ''quantity'') \<or>
              \<not> is_number (lookup item ''calories'') \<or>
              \<not> is_number (lookup item ''protein'') \<or>
              \<not> is_number (lookup item ''carbs'') \<or>
              \<not> is_number (lookup item ''fat'')
      then Some (ErrorObj ''Invalid item format in AI response'')
      else check_items P rest)"

text \<open>The rounding. \<^verbatim>\<open>{...item, calories: ..., ...}\<close> keeps every property of the item, in
  place, and replaces the four numbers.\<close>

definition round_item :: "platform \<Rightarrow> jsval \<Rightarrow> jsval" where
  "round_item P item =
     JObj (AList.update ''fat'' (JNum (round_tenth P (the_num (lookup item ''fat''))))
          (AList.update ''carbs'' (JNum (round_tenth P (the_num (lookup item ''carbs''))))
          (AList.update ''protein'' (JNum (round_tenth P (the_num (lookup item ''protein''))))
          (AList.update ''calories'' (JNum (Math_round (the_num (lookup item ''calories''))))
          (own_props item)))))"

definition round_estimate :: "platform \<Rightarrow> jsval \<Rightarrow> jsval" where
  "round_estimate P parsed =
     JObj (AList.update ''fat'' (JNum (round_tenth P (the_num (lookup parsed ''fat''))))
          (AList.update ''carbs'' (JNum (round_tenth P (the_num (lookup parsed ''carbs''))))
          (AList.update ''protein'' (JNum (round_tenth P (the_num (lookup parsed ''protein''))))
          (AList.update ''total_calories'' (JNum (Math_round (the_num (lookup parsed ''total_calories''))))
          (AList.update ''items'' (JArr (map (round_item P) (elements (lookup parsed ''items''))))
          (own_props parsed))))))"

text \<open>The \<^verbatim>\<open>try\<close> block from the provider's reply on: a response, or what was thrown.\<close>

definition estimate_from_reply :: "platform \<Rightarrow> ai_reply \<Rightarrow> thrown + response" where
  "estimate_from_reply P reply =
     (case reply of
        CreateFails e \<Rightarrow> Inl e
      | NoContent \<Rightarrow> Inl (ErrorObj ''No response from AI service'')
      | BadJSON e \<Rightarrow> Inl e
      | Parsed parsed \<Rightarrow>
          (case check_estimate P parsed of
             Some e \<Rightarrow> Inl e
           | None \<Rightarrow>
               (case check_items P (elements (lookup parsed ''items'')) of
                  Some e \<Rightarrow> Inl e
                | None \<Rightarrow> Inr \<lparr>status = 200, body = round_estimate P parsed\<rparr>)))"

text \<open>The \<^verbatim>\<open>catch\<close> block of a handler, with its fallback message.\<close>

definition caught :: "string \<Rightarrow> thrown \<Rightarrow> response" where
  "caught fallback e = error_json 500 (case e of ErrorObj m \<Rightarrow> m | NotAnError \<Rightarrow> fallback)"

text \<open>An outbound call: the chat completion request with the user's input as the content of
  its user message (system prompt, model and temperature are constants), or the food
  database search with the API key, the query (its code units) and the two numbers
  \<^verbatim>\<open>parseInt\<close> gave, which the URL holds in decimal.\<close>

datatype outbound = ChatCompletion jsval | FoodSearch string "nat list" jsnum jsnum

text \<open>The handler of \<^verbatim>\<open>POST /api/estimate-meal\<close>, on \<^verbatim>\<open>req.body\<close>: its response and the
  outbound calls it made.\<close>

definition estimateMeal ::
  "platform \<Rightarrow> environment \<Rightarrow> jsval \<Rightarrow> ai_reply \<Rightarrow> response \<times> outbound list" where
  "estimateMeal P env reqBody reply =
     (case read_property P reqBody ''userInput'' of
        Inl e \<Rightarrow> (caught ''Error estimating meal macros'' e, [])
      | Inr userInput \<Rightarrow>
          if \<not> truthy userInput \<or> \<not> is_string userInput
          then (error_json 400 ''Invalid request. userInput is required and must be a string.'', [])
          else if GROQ_API_KEY env = []
          then (error_json 500 ''Groq API key not configured on server'', [])
          else
            (case estimate_from_reply P reply of
               Inl e \<Rightarrow> (caught ''Error estimating meal macros'' e, [ChatCompletion userInput])
             | Inr r \<Rightarrow> (r, [ChatCompletion userInput])))"

section \<open>Food search\<close>

text \<open>A string of the query, as the list of its UTF-16 code units; \<open>ascii\<close> gives the code
  units of a literal.\<close>

type_synonym ustring = "nat list"

definition ascii :: "string \<Rightarrow> ustring" where
  "ascii s = map of_char s"

text \<open>A value of \<^verbatim>\<open>req.query\<close>: a string, or the array or object the query parser builds
  from repeated and bracketed parameters.\<close>

datatype qval = QStr ustring | QArr "qval list" | QObj "(string \<times> qval) list"

text \<open>
  The string \<^verbatim>\<open>parseInt\<close> makes of its argument first (\<^verbatim>\<open>ToString\<close>). A string is itself.
  An array is the strings of its elements, from left to right, joined by commas. An object
  of the query has no function among its properties: one with an own \<^verbatim>\<open>toString\<close> has no
  callable \<^verbatim>\<open>toString\<close>, and its \<^verbatim>\<open>valueOf\<close>, own or inherited, gives no primitive value,
  so the conversion throws; any other object is \<^verbatim>\<open>[object Object]\<close>.
\<close>

fun to_string :: "platform \<Rightarrow> qval \<Rightarrow> thrown + ustring"
  and join :: "platform \<Rightarrow> qval list \<Rightarrow> thrown + ustring" where
  "to_string P (QStr s) = Inr s"
| "to_string P (QArr xs) = join P xs"
| "to_string P (QObj kvs) =
     (if map_of kvs ''toString'' \<noteq> None then Inl (ErrorObj (notPrimitive P))
      else Inr (ascii ''[object Object]''))"
| "join P [] = Inr []"
| "join P [x] = to_string P x"
| "join P (x # y # rest) =
     (case to_string P x of
        Inl e \<Rightarrow> Inl e
      | Inr s \<Rightarrow> (case join P (y # rest) of Inl e \<Rightarrow> Inl e | Inr t \<Rightarrow> Inr (s @ 44 # t)))"

text \<open>The white space \<^verbatim>\<open>parseInt\<close> skips: TAB, LF, VT, FF, CR, SP, NBSP, U+1680,
  U+2000 to U+200A, LS, PS, U+202F, U+205F, U+3000 and U+FEFF.\<close>

definition is_space :: "nat \<Rightarrow> bool" where
  "is_space c =
     (c \<in> set [0x09, 0x0A, 0x0B, 0x0C, 0x0D, 0x20, 0xA0, 0x1680, 0x2028, 0x2029, 0x202F, 0x205F,
               0x3000, 0xFEFF]
      \<or> (0x2000 \<le> c \<and> c \<le> 0x200A))"

definition is_digit :: "nat \<Rightarrow> bool" where
  "is_digit c = (48 \<le> c \<and> c \<le> 57)"

definition digits_value :: "ustring \<Rightarrow> int" where
  "digits_value ds = foldl (\<lambda>a c. 10 * a + (int c - 48)) 0 ds"

text \<open>The first steps of \<^verbatim>\<open>parseInt(s, 10)\<close>: leading white space is skipped, one sign
  (\<^verbatim>\<open>-\<close> is 45, \<^verbatim>\<open>+\<close> is 43) is read, and the longest run of decimal digits that follows
  is the integer, whatever comes after it; \<open>None\<close> when no digit stands there.\<close>

definition leading_integer :: "ustring \<Rightarrow> int option" where
  "leading_integer s =
     (let t = dropWhile is_space s;
          (sign, u) = (case t of
                         [] \<Rightarrow> (1, [])
                       | c # r \<Rightarrow> if c = 45 then (- 1, r)
                                  else if c = 43 then (1, r) else (1, t));
          ds = takeWhile is_digit u
      in if ds = [] then None else Some (sign * digits_value ds))"

text \<open>The number of binary digits of a natural number.\<close>

fun bit_length :: "nat \<Rightarrow> nat" where
  "bit_length n = (if n = 0 then 0 else Suc (bit_length (n div 2)))"

text \<open>
  The binary64 number of an integer: the integer itself when it has at most 53 binary
  digits; otherwise its leading 53 digits, rounded to nearest with a tie going to the even
  one, and an infinity from \<open>2 ^ 1024\<close> on.
\<close>

definition binary64 :: "int \<Rightarrow> jsnum" where
  "binary64 z =
     (let a = nat \<bar>z\<bar>; b = bit_length a in
      if b \<le> 53 then Fin (of_int z)
      else
        let sh = b - 53;
            q = a div 2 ^ sh;
            r = a mod 2 ^ sh;
            q' = (if 2 ^ (sh - 1) < r \<or> (r = 2 ^ (sh - 1) \<and> odd q) then q + 1 else q);
            v = q' * 2 ^ sh
        in if 2 ^ 1024 \<le> v then (if z < 0 then NegInfinity else PosInfinity)
           else Fin (of_int (if z < 0 then - int v else int v)))"

text \<open>\<^verbatim>\<open>parseInt(s, 10)\<close>: the binary64 number of the integer read, \<open>None\<close> for
  \<^verbatim>\<open>NaN\<close>. (For more than 20 significant digits the language lets an engine read the
  digits after the 20th as zeros; the number is then still below 1 exactly when the integer
  is.)\<close>

definition parseInt :: "ustring \<Rightarrow> jsnum option" where
  "parseInt s = map_option binary64 (leading_integer s)"

text \<open>\<^verbatim>\<open>x < 1\<close> for a number.\<close>

fun below_one :: "jsnum \<Rightarrow> bool" where
  "below_one (Fin q) = (q < 1)"
| "below_one PosInfinity = False"
| "below_one NegInfinity = True"

text \<open>A string without a lone surrogate: what \<^verbatim>\<open>encodeURIComponent\<close> accepts.\<close>

fun well_formed :: "ustring \<Rightarrow> bool" where
  "well_formed [] = True"
| "well_formed [c] = (\<not> (0xD800 \<le> c \<and> c \<le> 0xDFFF))"
| "well_formed (c # d # rest) =
     (if 0xD800 \<le> c \<and> c \<le> 0xDBFF then 0xDC00 \<le> d \<and> d \<le> 0xDFFF \<and> well_formed rest
      else if 0xDC00 \<le> c \<and> c \<le> 0xDFFF then False
      else well_formed (d # rest))"

text \<open>A natural number in decimal, as a template literal prints a status code.\<close>

fun show_nat :: "nat \<Rightarrow> string" where
  "show_nat n = (if n < 10 then [char_of (48 + n)] else show_nat (n div 10) @ [char_of (48 + n mod 10)])"

text \<open>What \<^verbatim>\<open>fetch\<close> comes to. \<open>FetchFails\<close>: the awaited call throws. \<open>Fetched ok st js\<close>:
  it gives a response with \<^verbatim>\<open>response.ok\<close>, \<^verbatim>\<open>response.status\<close>, and a body on which
  \<^verbatim>\<open>response.json()\<close> throws or gives a value.\<close>

datatype usda_reply = FetchFails thrown | Fetched bool nat "thrown + jsval"

definition search_from_reply :: "usda_reply \<Rightarrow> thrown + response" where
  "search_from_reply reply =
     (case reply of
        FetchFails e \<Rightarrow> Inl e
      | Fetched ok st js \<Rightarrow>
          if \<not> ok then Inl (ErrorObj (''USDA API Error: '' @ show_nat st))
          else (case js of Inl e \<Rightarrow> Inl e | Inr data \<Rightarrow> Inr \<lparr>status = 200, body = data\<rparr>))"

definition bad_query :: response where
  "bad_query = error_json 400 ''Invalid request. query parameter is required.''"

definition bad_paging :: response where
  "bad_paging = error_json 400 ''Invalid pageSize or pageNumber parameters.''"

text \<open>
  The handler of \<^verbatim>\<open>GET /api/search-foods\<close>, on \<^verbatim>\<open>req.query\<close>. \<^verbatim>\<open>pageSize\<close> and
  \<^verbatim>\<open>pageNumber\<close> default to \<^verbatim>\<open>"10"\<close> and \<^verbatim>\<open>"1"\<close> when absent. The first test passes
  exactly when \<^verbatim>\<open>query\<close> is a string that is not empty. Then the two \<^verbatim>\<open>parseInt\<close> calls
  run, \<^verbatim>\<open>pageSize\<close> first, each of which can throw; the second test fails when a number
  is \<^verbatim>\<open>NaN\<close> or below 1. Then the URL is built, where \<^verbatim>\<open>encodeURIComponent\<close> can throw,
  and only then \<^verbatim>\<open>fetch\<close> is called. Whatever is thrown, the \<^verbatim>\<open>catch\<close> block answers.
\<close>

definition searchFoods ::
  "platform \<Rightarrow> environment \<Rightarrow> (string \<times> qval) list \<Rightarrow> usda_reply \<Rightarrow> response \<times> outbound list" where
  "searchFoods P env reqQuery reply =
     (let pageSize = (case map_of reqQuery ''pageSize'' of None \<Rightarrow> QStr (ascii ''10'') | Some v \<Rightarrow> v);
          pageNumber = (case map_of reqQuery ''pageNumber'' of None \<Rightarrow> QStr (ascii ''1'') | Some v \<Rightarrow> v)
      in case map_of reqQuery ''query'' of
           Some (QStr query) \<Rightarrow>
             if query = [] then (bad_query, [])
             else
               (case to_string P pageSize of
                  Inl e \<Rightarrow> (caught ''Error searching foods'' e, [])
                | Inr s \<Rightarrow>
                    (case to_string P pageNumber of
                       Inl e \<Rightarrow> (caught ''Error searching foods'' e, [])
                     | Inr t \<Rightarrow>
                         (case (parseInt s, parseInt t) of
                            (Some pageSizeNum, Some pageNumberNum) \<Rightarrow>
                              if below_one pageSizeNum \<or> below_one pageNumberNum then (bad_paging, [])
                              else if \<not> well_formed query
                              then (caught ''Error searching foods'' (ErrorObj (uriMalformed P)), [])
                              else
                                (case search_from_reply reply of
                                   Inl e \<Rightarrow> (caught ''Error searching foods'' e,
                                             [FoodSearch (USDA_API_KEY env) query pageSizeNum pageNumberNum])
                                 | Inr r \<Rightarrow> (r, [FoodSearch (USDA_API_KEY env) query pageSizeNum pageNumberNum]))
                          | _ \<Rightarrow> (bad_paging, []))))
         | _ \<Rightarrow> (bad_query, []))"

section \<open>Health check\<close>

text \<open>\<^verbatim>\<open>GET /health\<close>. \<open>timestamp\<close> is the string \<^verbatim>\<open>new Date().toISOString()\<close> gives when
  the handler runs. The handler reads nothing of the request and makes no outbound call.\<close>

definition health :: "string \<Rightarrow> response" where
  "health timestamp =
     \<lparr>status = 200, body = JObj [(''status'', JStr ''ok''), (''timestamp'', JStr timestamp)]\<rparr>"

definition GET_health ::
  "parsed_body \<Rightarrow> requestCounts \<Rightarrow> peer \<Rightarrow> int \<Rightarrow> string \<Rightarrow> (answer \<times> outbound list) \<times> requestCounts" where
  "GET_health parsed store p now timestamp =
     behind_middleware parsed store p now (\<lambda>reqBody. (health timestamp, []))"

text \<open>A sequence of \<^verbatim>\<open>GET /health\<close> requests, each with what the body parser makes of it,
  its client, its arrival time and its timestamp: the answers in order.\<close>

fun health_run :: "requestCounts \<Rightarrow> (parsed_body \<times> peer \<times> int \<times> string) list \<Rightarrow> answer list" where
  "health_run store [] = []"
| "health_run store ((parsed, p, now, timestamp) # rest) =
     fst (fst (GET_health parsed store p now timestamp))
       # health_run (snd (GET_health parsed store p now timestamp)) rest"

section \<open>Notions the statements use\<close>

text \<open>A string from which \<^verbatim>\<open>parseInt\<close> reads no number: after the leading white space and
  one sign, if there is one, no decimal digit follows.\<close>

definition no_leading_digit :: "ustring \<Rightarrow> bool" where
  "no_leading_digit s =
     (case dropWhile is_space s of
        [] \<Rightarrow> True
      | c # r \<Rightarrow>
          if c = 45 \<or> c = 43 then (case r of [] \<Rightarrow> True | d # r' \<Rightarrow> \<not> is_digit d)
          else \<not> is_digit c)"

text \<open>A page parameter, as a string, that the second test of the search handler refuses: no
  number is read from it, or the integer read is below 1.\<close>

definition refused_page :: "ustring \<Rightarrow> bool" where
  "refused_page s =
     (no_leading_digit s \<or> (case leading_integer s of None \<Rightarrow> False | Some z \<Rightarrow> z < 1))"




text \<open>The sum of the calories of the items of an estimate, as an exact number.\<close>

definition calories_of :: "jsval \<Rightarrow> rat" where
  "calories_of item = (case lookup item ''calories'' of JNum (Fin q) \<Rightarrow> q | _ \<Rightarrow> 0)"

definition calories_sum :: "jsval \<Rightarrow> rat" where
  "calories_sum b = sum_list (map calories_of (elements (lookup b ''items'')))"

text \<open>A provider reply of the required shape whose total is not the sum of its items.\<close>

definition eggs_and_toast :: jsval where
  "eggs_and_toast =
     JObj [(''description'', JStr ''Two eggs and a slice of toast''),
           (''items'', JArr
              [JObj [(''name'', JStr ''eggs''), (''quantity'', JStr ''2 eggs''),
                     (''calories'', JNum (Fin 140)), (''protein'', JNum (Fin 12)),
                     (''carbs'', JNum (Fin 1)), (''fat'', JNum (Fin 10))],
               JObj [(''name'', JStr ''toast''), (''quantity'', JStr ''1 slice''),
                     (''calories'', JNum (Fin 80)), (''protein'', JNum (Fin 3)),
                     (''carbs'', JNum (Fin 15)), (''fat'', JNum (Fin 1))]]),
           (''total_calories'', JNum (Fin 500)),
           (''protein'', JNum (Fin 15)), (''carbs'', JNum (Fin 16)), (''fat'', JNum (Fin 11)),
           (''confidence'', JStr ''high''),
           (''assumptions'', JArr [])]"


section \<open>Properties of the rate limiter\<close>

lemma too_many_requests_explicit:
  "too_many_requests =
     \<lparr>status = 429, body = JObj [(''error'', JStr ''Too many requests. Please try again later.'')]\<rparr>"
  by (simp add: too_many_requests_def error_json_def)

lemma rateLimiter_other:
  "clientKey p \<noteq> k \<Longrightarrow> snd (rateLimiter store p now) k = store k"
  by (simp add: rateLimiter_def Let_def split: option.split)

lemma serve_Cons [simp]:
  "fst (serve store ((p, now) # rest)) =
     fst (rateLimiter store p now) # fst (serve (snd (rateLimiter store p now)) rest)"
  "snd (serve store ((p, now) # rest)) = snd (serve (snd (rateLimiter store p now)) rest)"
  by (simp_all add: case_prod_beta)

declare serve.simps(2) [simp del]

lemma serve_other:
  "list_all (\<lambda>(p, now). clientKey p \<noteq> k) reqs \<Longrightarrow> snd (serve store reqs) k = store k"
proof (induction reqs arbitrary: store)
  case Nil
  show ?case by simp
next
  case (Cons r reqs)
  obtain p now where r: "r = (p, now)" by (cases r)
  from Cons.prems r have key: "clientKey p \<noteq> k" and rest: "list_all (\<lambda>(p, now). clientKey p \<noteq> k) reqs"
    by simp_all
  have "snd (serve store (r # reqs)) k = snd (serve (snd (rateLimiter store p now)) reqs) k"
    by (simp add: r)
  also have "\<dots> = snd (rateLimiter store p now) k"
    by (rule Cons.IH [OF rest])
  also have "\<dots> = store k"
    by (rule rateLimiter_other [OF key])
  finally show ?case .
qed

text \<open>Inside a window: a key whose entry holds count \<open>c\<close> and whose requests all arrive
  no later than the entry's \<open>resetTime\<close>.\<close>

lemma window_run:
  assumes "store k = Some \<lparr>count = c, resetTime = T\<rparr>" and "1 \<le> c" and "c \<le> 30"
    and "list_all (\<lambda>(p, now). clientKey p = k \<longrightarrow> now \<le> T) reqs"
  shows "decisions_of k reqs (fst (serve store reqs)) =
           map (\<lambda>i. window_decision (nat c + i)) [0..<length (filter (\<lambda>(p, now). clientKey p = k) reqs)]
         \<and> snd (serve store reqs) k =
           Some \<lparr>count = min 30 (c + int (length (filter (\<lambda>(p, now). clientKey p = k) reqs))),
                 resetTime = T\<rparr>"
  using assms
proof (induction reqs arbitrary: store c)
  case Nil
  then show ?case by simp
next
  case (Cons r reqs)
  obtain p now where r: "r = (p, now)" by (cases r)
  from Cons.prems(4) r have rest: "list_all (\<lambda>(p, now). clientKey p = k \<longrightarrow> now \<le> T) reqs"
    and here: "clientKey p = k \<longrightarrow> now \<le> T"
    by simp_all
  define n where "n = length (filter (\<lambda>(p, now). clientKey p = k) reqs)"
  show ?case
  proof (cases "clientKey p = k")
    case False
    define store' where "store' = snd (rateLimiter store p now)"
    have same: "store' k = Some \<lparr>count = c, resetTime = T\<rparr>"
      using Cons.prems(1) False by (simp add: store'_def rateLimiter_other)
    have IH: "decisions_of k reqs (fst (serve store' reqs)) = map (\<lambda>i. window_decision (nat c + i)) [0..<n]
        \<and> snd (serve store' reqs) k = Some \<lparr>count = min 30 (c + int n), resetTime = T\<rparr>"
      unfolding n_def by (rule Cons.IH [of store' c, OF same Cons.prems(2,3) rest])
    have len: "length (filter (\<lambda>(p, now). clientKey p = k) (r # reqs)) = n"
      using False by (simp add: r n_def)
    have "decisions_of k (r # reqs) (fst (serve store (r # reqs))) = decisions_of k reqs (fst (serve store' reqs))"
      using False by (simp add: r store'_def)
    moreover have "snd (serve store (r # reqs)) k = snd (serve store' reqs) k"
      by (simp add: r store'_def)
    ultimately show ?thesis
      unfolding len using IH by simp
  next
    case True
    with here have le: "now \<le> T" by simp
    have len: "length (filter (\<lambda>(p, now). clientKey p = k) (r # reqs)) = Suc n"
      using True by (simp add: r n_def)
    show ?thesis
    proof (cases "c < 30")
      case True
      define store' where "store' = store(k \<mapsto> \<lparr>count = c + 1, resetTime = T\<rparr>)"
      have step: "rateLimiter store p now = (Next, store')"
        using Cons.prems(1) \<open>clientKey p = k\<close> le True
        by (simp add: rateLimiter_def MAX_REQUESTS_PER_WINDOW_def store'_def)
      have st: "store' k = Some \<lparr>count = c + 1, resetTime = T\<rparr>"
        by (simp add: store'_def)
      have c1: "1 \<le> c + 1" "c + 1 \<le> 30" using Cons.prems(2) True by simp_all
      have IH: "decisions_of k reqs (fst (serve store' reqs)) = map (\<lambda>i. window_decision (nat (c + 1) + i)) [0..<n]
        \<and> snd (serve store' reqs) k = Some \<lparr>count = min 30 (c + 1 + int n), resetTime = T\<rparr>"
        unfolding n_def by (rule Cons.IH [of store' "c + 1", OF st c1 rest])
      have shift: "nat (c + 1) = Suc (nat c)" using Cons.prems(2) by simp
      have head: "window_decision (nat c) = Next"
        using True Cons.prems(2) by (simp add: window_decision_def)
      have "decisions_of k (r # reqs) (fst (serve store (r # reqs))) =
              Next # decisions_of k reqs (fst (serve store' reqs))"
        using \<open>clientKey p = k\<close> by (simp add: r step)
      also have "\<dots> = window_decision (nat c + 0) # map (\<lambda>i. window_decision (nat c + Suc i)) [0..<n]"
        using IH by (simp add: head shift)
      also have "\<dots> = map (\<lambda>i. window_decision (nat c + i)) [0..<Suc n]"
        by (simp add: map_upt_Suc del: upt_Suc)
      finally have dec: "decisions_of k (r # reqs) (fst (serve store (r # reqs))) =
          map (\<lambda>i. window_decision (nat c + i)) [0..<Suc n]" .
      have "snd (serve store (r # reqs)) k = snd (serve store' reqs) k"
        by (simp add: r step)
      also have "\<dots> = Some \<lparr>count = min 30 (c + int (Suc n)), resetTime = T\<rparr>"
        using IH by (simp add: add.commute add.left_commute)
      finally show ?thesis
        unfolding len using dec by simp
    next
      case False
      with Cons.prems(3) have c30: "c = 30" by simp
      have step: "rateLimiter store p now = (Sent too_many_requests, store)"
        using Cons.prems(1) \<open>clientKey p = k\<close> le c30
        by (simp add: rateLimiter_def MAX_REQUESTS_PER_WINDOW_def)
      have full: "\<And>i. window_decision (nat c + i) = Sent too_many_requests"
        using c30 by (simp add: window_decision_def too_many_requests_explicit)
      have IH: "decisions_of k reqs (fst (serve store reqs)) = map (\<lambda>i. window_decision (nat c + i)) [0..<n]
        \<and> snd (serve store reqs) k = Some \<lparr>count = min 30 (c + int n), resetTime = T\<rparr>"
        unfolding n_def by (rule Cons.IH [of store c, OF Cons.prems(1,2,3) rest])
      have "decisions_of k (r # reqs) (fst (serve store (r # reqs))) =
              Sent too_many_requests # decisions_of k reqs (fst (serve store reqs))"
        using \<open>clientKey p = k\<close> by (simp add: r step)
      also have "\<dots> = map (\<lambda>i. window_decision (nat c + i)) [0..<Suc n]"
        using IH by (simp add: full map_replicate_const del: upt_Suc)
      finally have dec: "decisions_of k (r # reqs) (fst (serve store (r # reqs))) =
          map (\<lambda>i. window_decision (nat c + i)) [0..<Suc n]" .
      have "snd (serve store (r # reqs)) k = snd (serve store reqs) k"
        by (simp add: r step)
      also have "\<dots> = Some \<lparr>count = min 30 (c + int (Suc n)), resetTime = T\<rparr>"
        using IH c30 by simp
      finally show ?thesis
        unfolding len using dec by simp
    qed
  qed
qed

lemma rateLimiter_opens:
  assumes "store (clientKey p) = None \<or> (\<exists>e. store (clientKey p) = Some e \<and> resetTime e < now)"
  shows "rateLimiter store p now =
           (Next, store(clientKey p \<mapsto> \<lparr>count = 1, resetTime = now + RATE_LIMIT_WINDOW\<rparr>))"
  using assms by (auto simp: rateLimiter_def)

lemma rateLimiter_gate_local:
  "store (clientKey p) = store' (clientKey p) \<Longrightarrow>
   fst (rateLimiter store p now) = fst (rateLimiter store' p now)"
  by (simp add: rateLimiter_def Let_def split: option.split)

text \<open>
  Claim C1. A window of a client key opens with a request that finds no entry for the key,
  or an entry whose \<open>resetTime\<close> has passed. Of all requests of that key from the opening one
  on, each arriving no later than the window's \<open>resetTime\<close> (the opening time plus 60000 ms),
  the first 30 are admitted and the 31st and every later one is answered with status 429 and
  the body \<^verbatim>\<open>{error: "Too many requests. Please try again later."}\<close>. Requests of other
  keys may arrive in between, at any time.
\<close>

theorem rate_limit_window:
  assumes "store (clientKey p0) = None \<or> (\<exists>e. store (clientKey p0) = Some e \<and> resetTime e < t0)"
    and "list_all (\<lambda>(p, now). clientKey p = clientKey p0 \<longrightarrow> now \<le> t0 + RATE_LIMIT_WINDOW) rest"
  shows "decisions_of (clientKey p0) ((p0, t0) # rest) (fst (serve store ((p0, t0) # rest))) =
           map window_decision
             [0..<length (filter (\<lambda>(p, now). clientKey p = clientKey p0) ((p0, t0) # rest))]"
proof -
  define k where "k = clientKey p0"
  define n where "n = length (filter (\<lambda>(p, now). clientKey p = k) rest)"
  define store' where "store' = store(k \<mapsto> \<lparr>count = 1, resetTime = t0 + RATE_LIMIT_WINDOW\<rparr>)"
  have step: "rateLimiter store p0 t0 = (Next, store')"
    unfolding store'_def k_def by (rule rateLimiter_opens [of store p0 t0, OF assms(1)])
  have st: "store' k = Some \<lparr>count = 1, resetTime = t0 + RATE_LIMIT_WINDOW\<rparr>"
    by (simp add: store'_def)
  have inside: "list_all (\<lambda>(p, now). clientKey p = k \<longrightarrow> now \<le> t0 + RATE_LIMIT_WINDOW) rest"
    using assms(2) by (simp add: k_def)
  have run: "decisions_of k rest (fst (serve store' rest)) = map (\<lambda>i. window_decision (nat 1 + i)) [0..<n]"
    unfolding n_def
    using window_run [of store' k 1 "t0 + RATE_LIMIT_WINDOW" rest, OF st _ _ inside] by simp
  have "decisions_of k ((p0, t0) # rest) (fst (serve store ((p0, t0) # rest))) =
          Next # decisions_of k rest (fst (serve store' rest))"
    by (simp add: step k_def)
  also have "\<dots> = window_decision 0 # map (\<lambda>i. window_decision (Suc i)) [0..<n]"
    using run by (simp add: window_decision_def)
  also have "\<dots> = map window_decision [0..<Suc n]"
    by (simp add: map_upt_Suc del: upt_Suc)
  finally show ?thesis
    by (simp add: k_def n_def)
qed

theorem rate_limit_window_witness:
  "decisions_of ''10.0.0.1''
     ((\<lparr>ip = Some ''10.0.0.1'', remoteAddress = None\<rparr>, 1000) #
        replicate 31 (\<lparr>ip = Some ''10.0.0.1'', remoteAddress = None\<rparr>, 61000))
     (fst (serve Map.empty
        ((\<lparr>ip = Some ''10.0.0.1'', remoteAddress = None\<rparr>, 1000) #
          replicate 31 (\<lparr>ip = Some ''10.0.0.1'', remoteAddress = None\<rparr>, 61000))))
   = replicate 30 Next @ replicate 2 (Sent too_many_requests)"
proof -
  have "map window_decision [0..<32] = replicate 30 Next @ replicate 2 (Sent too_many_requests)"
    by code_simp
  then show ?thesis
  using rate_limit_window [of Map.empty "\<lparr>ip = Some ''10.0.0.1'', remoteAddress = None\<rparr>" 1000
     "replicate 31 (\<lparr>ip = Some ''10.0.0.1'', remoteAddress = None\<rparr>, 61000)"]
  by (simp add: clientKey_def RATE_LIMIT_WINDOW_def list_all_length)
qed

text \<open>
  Claim C6. A request whose key has no stored entry, or arrives strictly after the stored
  \<open>resetTime\<close>, is admitted, and the key's entry becomes count 1 with
  \<open>resetTime = now + 60000\<close>; nothing else of the store changes.
\<close>

theorem window_initialised:
  assumes "store (clientKey p) = None \<or> (\<exists>e. store (clientKey p) = Some e \<and> resetTime e < now)"
  shows "rateLimiter store p now =
           (Next, store(clientKey p \<mapsto> \<lparr>count = 1, resetTime = now + 60000\<rparr>))"
  using rateLimiter_opens [of store p now, OF assms] by (simp add: RATE_LIMIT_WINDOW_def)

theorem window_initialised_witness:
  "rateLimiter [''10.0.0.1'' \<mapsto> \<lparr>count = 30, resetTime = 61000\<rparr>]
      \<lparr>ip = Some ''10.0.0.1'', remoteAddress = None\<rparr> 61001 =
     (Next, [''10.0.0.1'' \<mapsto> \<lparr>count = 1, resetTime = 121001\<rparr>])"
  using window_initialised [of "[''10.0.0.1'' \<mapsto> \<lparr>count = 30, resetTime = 61000\<rparr>]"
      "\<lparr>ip = Some ''10.0.0.1'', remoteAddress = None\<rparr>" 61001]
  by (simp add: clientKey_def)

text \<open>
  Claim C7. For distinct keys \<open>A\<close> and \<open>B\<close>, any sequence of requests of key \<open>A\<close>, of any
  length and at any times, leaves the entry of \<open>B\<close> (its count and \<open>resetTime\<close>, or its
  absence) as it was, and with it the decision a request of key \<open>B\<close> gets.
\<close>

theorem keys_independent:
  assumes "A \<noteq> B"
    and "list_all (\<lambda>(p, now). clientKey p = A) reqs"
    and "clientKey pB = B"
  shows "snd (serve store reqs) B = store B
         \<and> fst (rateLimiter (snd (serve store reqs)) pB t) = fst (rateLimiter store pB t)"
proof -
  have "list_all (\<lambda>(p, now). clientKey p \<noteq> B) reqs"
    using assms(1,2) by (auto simp: list_all_iff)
  then have frame: "snd (serve store reqs) B = store B"
    by (rule serve_other)
  then have "snd (serve store reqs) (clientKey pB) = store (clientKey pB)"
    by (simp add: assms(3))
  then have "fst (rateLimiter (snd (serve store reqs)) pB t) = fst (rateLimiter store pB t)"
    by (rule rateLimiter_gate_local)
  with frame show ?thesis by simp
qed

theorem keys_independent_witness:
  "snd (serve [''10.0.0.2'' \<mapsto> \<lparr>count = 29, resetTime = 61000\<rparr>]
          (replicate 40 (\<lparr>ip = Some ''10.0.0.1'', remoteAddress = None\<rparr>, 1000))) ''10.0.0.2''
     = Some \<lparr>count = 29, resetTime = 61000\<rparr>
   \<and> fst (rateLimiter (snd (serve [''10.0.0.2'' \<mapsto> \<lparr>count = 29, resetTime = 61000\<rparr>]
          (replicate 40 (\<lparr>ip = Some ''10.0.0.1'', remoteAddress = None\<rparr>, 1000))))
         \<lparr>ip = None, remoteAddress = Some ''10.0.0.2''\<rparr> 2000) = Next"
proof -
  have "fst (rateLimiter [''10.0.0.2'' \<mapsto> \<lparr>count = 29, resetTime = 61000\<rparr>]
         \<lparr>ip = None, remoteAddress = Some ''10.0.0.2''\<rparr> 2000) = Next"
    by (simp add: clientKey_def rateLimiter_def MAX_REQUESTS_PER_WINDOW_def)
  with keys_independent [of "''10.0.0.1''" "''10.0.0.2''"
      "replicate 40 (\<lparr>ip = Some ''10.0.0.1'', remoteAddress = None\<rparr>, 1000)"
      "\<lparr>ip = None, remoteAddress = Some ''10.0.0.2''\<rparr>"
      "[''10.0.0.2'' \<mapsto> \<lparr>count = 29, resetTime = 61000\<rparr>]" 2000]
  show ?thesis
    by (simp add: clientKey_def list_all_length)
qed

section \<open>Properties of the health check\<close>

text \<open>
  Claim C3, as amended. A request to \<^verbatim>\<open>GET /health\<close> that reaches the handler, that is,
  one that the body parser passes on and the rate limiter admits, is answered with status
  200 and the body \<^verbatim>\<open>{status: "ok", timestamp: <the current time in ISO-8601>}\<close>, whatever
  the client sent before; the handler has no failure mode of its own and makes no
  outbound call.
\<close>

theorem health_ok_when_admitted:
  assumes "fst (rateLimiter store p now) = Next"
  shows "fst (GET_health (Accepted reqBody) store p now timestamp) =
           (Replied \<lparr>status = 200,
                     body = JObj [(''status'', JStr ''ok''), (''timestamp'', JStr timestamp)]\<rparr>, [])"
  using assms
  by (cases "rateLimiter store p now")
     (simp add: GET_health_def behind_middleware_def health_def)

theorem health_ok_when_admitted_witness:
  "fst (GET_health (Accepted (JObj [])) [''10.0.0.1'' \<mapsto> \<lparr>count = 29, resetTime = 61000\<rparr>]
          \<lparr>ip = Some ''10.0.0.1'', remoteAddress = None\<rparr> 2000 ''2026-11-03T00:00:02.000Z'') =
     (Replied \<lparr>status = 200,
               body = JObj [(''status'', JStr ''ok''),
                            (''timestamp'', JStr ''2026-11-03T00:00:02.000Z'')]\<rparr>, [])"
proof -
  have "fst (rateLimiter [''10.0.0.1'' \<mapsto> \<lparr>count = 29, resetTime = 61000\<rparr>]
          \<lparr>ip = Some ''10.0.0.1'', remoteAddress = None\<rparr> 2000) = Next"
    by (simp add: rateLimiter_def clientKey_def MAX_REQUESTS_PER_WINDOW_def)
  then show ?thesis
    by (rule health_ok_when_admitted)
qed

text \<open>The claim as stated fails. Of 31 requests to \<^verbatim>\<open>GET /health\<close> that one client sends
  within a window, the 31st is answered with status 429. And a request to \<^verbatim>\<open>GET /health\<close>
  whose body the parser refuses as malformed is answered with status 400.\<close>

theorem health_rate_limited:
  "map answer_status (health_run Map.empty
      (replicate 31 (Accepted (JObj []), \<lparr>ip = Some ''10.0.0.1'', remoteAddress = None\<rparr>, 1000,
                     ''2026-11-03T00:00:01.000Z'')))
     = replicate 30 200 @ [429]
   \<and> map answer_status (health_run Map.empty
      [(Refused 400, \<lparr>ip = Some ''10.0.0.1'', remoteAddress = None\<rparr>, 1000, ''2026-11-03T00:00:01.000Z'')])
     = [400]"
  by code_simp

section \<open>Properties of the meal estimate\<close>







text \<open>\<^verbatim>\<open>Math.round\<close> leaves a whole number as it is, so it is idempotent, and its result
  is the integer nearest to its argument, the upper one of two.\<close>

lemma Math_round_whole: "Math_round (Fin (of_int n)) = Fin (of_int n)"
proof -
  have "\<lfloor>(of_int n :: rat) + 1 / 2\<rfloor> = n"
    by (simp add: floor_eq_iff)
  then show ?thesis by simp
qed

lemma Math_round_numeral [simp]: "Math_round (Fin (numeral v)) = Fin (numeral v)"
  using Math_round_whole [of "numeral v"] by simp

lemma Math_round_idempotent: "Math_round (Math_round x) = Math_round x"
proof (cases x)
  case (Fin q)
  then show ?thesis using Math_round_whole [of "\<lfloor>q + 1 / 2\<rfloor>"] by simp
qed simp_all

lemma Math_round_nearest:
  "\<exists>n. Math_round (Fin q) = Fin (of_int n) \<and> q - 1 / 2 < of_int n \<and> of_int n \<le> q + 1 / 2"
proof -
  have "q - 1 / 2 < of_int \<lfloor>q + 1 / 2\<rfloor>" and "of_int \<lfloor>q + 1 / 2\<rfloor> \<le> q + 1 / 2"
    by linarith+
  then show ?thesis by auto
qed


declare Math_round.simps(1) [simp del]











text \<open>
  Claim C9. The totals are not checked against the items: there is a provider reply that
  passes both validations and is returned with status 200 whose \<^verbatim>\<open>total_calories\<close> (500)
  differs from the sum of the calories of its items (220).
\<close>

theorem totals_not_enforced:
  "\<exists>parsed. \<forall>P. \<exists>b.
     estimateMeal P \<lparr>env_GROQ_API_KEY = Some ''gsk_1'', env_USDA_API_KEY = None\<rparr>
        (JObj [(''userInput'', JStr ''2 eggs and toast'')]) (Parsed parsed)
       = (\<lparr>status = 200, body = b\<rparr>, [ChatCompletion (JStr ''2 eggs and toast'')])
     \<and> lookup b ''total_calories'' = JNum (Fin 500)
     \<and> calories_sum b = 220
     \<and> lookup b ''total_calories'' \<noteq> JNum (Fin (calories_sum b))"
proof (rule exI [of _ eggs_and_toast], rule allI)
  fix P
  let ?b = "round_estimate P eggs_and_toast"
  have run: "estimateMeal P \<lparr>env_GROQ_API_KEY = Some ''gsk_1'', env_USDA_API_KEY = None\<rparr>
        (JObj [(''userInput'', JStr ''2 eggs and toast'')]) (Parsed eggs_and_toast)
       = (\<lparr>status = 200, body = ?b\<rparr>, [ChatCompletion (JStr ''2 eggs and toast'')])"
    by (simp add: estimateMeal_def read_property_def GROQ_API_KEY_def estimate_from_reply_def
        check_estimate_def eggs_and_toast_def)
  have total: "lookup ?b ''total_calories'' = JNum (Fin 500)"
    by (simp add: round_estimate_def eggs_and_toast_def)
  have sum: "calories_sum ?b = 220"
    by (simp add: calories_sum_def calories_of_def round_estimate_def round_item_def eggs_and_toast_def)
  show "\<exists>b. estimateMeal P \<lparr>env_GROQ_API_KEY = Some ''gsk_1'', env_USDA_API_KEY = None\<rparr>
        (JObj [(''userInput'', JStr ''2 eggs and toast'')]) (Parsed eggs_and_toast)
       = (\<lparr>status = 200, body = b\<rparr>, [ChatCompletion (JStr ''2 eggs and toast'')])
     \<and> lookup b ''total_calories'' = JNum (Fin 500)
     \<and> calories_sum b = 220
     \<and> lookup b ''total_calories'' \<noteq> JNum (Fin (calories_sum b))"
    using run total sum by (intro exI [of _ ?b]) simp
qed

theorem totals_not_enforced_witness:
  "\<forall>P. \<exists>parsed b.
     estimateMeal P \<lparr>env_GROQ_API_KEY = Some ''gsk_1'', env_USDA_API_KEY = None\<rparr>
        (JObj [(''userInput'', JStr ''2 eggs and toast'')]) (Parsed parsed)
       = (\<lparr>status = 200, body = b\<rparr>, [ChatCompletion (JStr ''2 eggs and toast'')])
     \<and> lookup b ''total_calories'' = JNum (Fin 500)
     \<and> calories_sum b = 220"
  using totals_not_enforced by blast

text \<open>
  Claim C10. The empty string is refused although it is a string: a body of
  \<^verbatim>\<open>POST /api/estimate-meal\<close> with \<^verbatim>\<open>userInput = ""\<close> gets status 400, and so does a request
  to \<^verbatim>\<open>GET /api/search-foods\<close> with \<^verbatim>\<open>query = ""\<close>; neither makes an outbound call.
\<close>

theorem empty_string_rejected:
  "(map_of kvs ''userInput'' = Some (JStr []) \<longrightarrow>
      estimateMeal P env (JObj kvs) reply =
        (\<lparr>status = 400,
          body = JObj [(''error'', JStr ''Invalid request. userInput is required and must be a string.'')]\<rparr>, []))
   \<and> (map_of reqQuery ''query'' = Some (QStr []) \<longrightarrow>
      searchFoods P env reqQuery reply' =
        (\<lparr>status = 400, body = JObj [(''error'', JStr ''Invalid request. query parameter is required.'')]\<rparr>, []))"
  by (simp add: estimateMeal_def read_property_def error_json_def searchFoods_def bad_query_def Let_def)

theorem empty_string_rejected_witness:
  "(\<forall>P reply. estimateMeal P \<lparr>env_GROQ_API_KEY = Some ''gsk_1'', env_USDA_API_KEY = None\<rparr>
        (JObj [(''userInput'', JStr '''')]) reply =
        (\<lparr>status = 400,
          body = JObj [(''error'', JStr ''Invalid request. userInput is required and must be a string.'')]\<rparr>, []))
   \<and> (\<forall>P reply. searchFoods P \<lparr>env_GROQ_API_KEY = Some ''gsk_1'', env_USDA_API_KEY = None\<rparr>
        [(''query'', QStr []), (''pageSize'', QStr (ascii ''5''))] reply =
        (\<lparr>status = 400, body = JObj [(''error'', JStr ''Invalid request. query parameter is required.'')]\<rparr>, []))"
  using empty_string_rejected [of "[(''userInput'', JStr '''')]" _ "\<lparr>env_GROQ_API_KEY = Some ''gsk_1'', env_USDA_API_KEY = None\<rparr>"
      _ "[(''query'', QStr []), (''pageSize'', QStr (ascii ''5''))]"]
  by simp

section \<open>Properties of the food search\<close>

declare show_nat.simps [simp del]
declare bit_length.simps [simp del]

lemma bit_length_le: "n < 2 ^ k \<Longrightarrow> bit_length n \<le> k"
proof (induction n arbitrary: k rule: bit_length.induct)
  case (1 n)
  show ?case
  proof (cases "n = 0")
    case True
    then show ?thesis by (simp add: bit_length.simps)
  next
    case False
    with "1.prems" obtain j where k: "k = Suc j"
      by (cases k) auto
    from "1.prems" k have "n div 2 < 2 ^ j" by auto
    from "1.IH" [OF False this] False k show ?thesis
      by (simp add: bit_length.simps [of n])
  qed
qed

lemma bit_length_ge: "0 < n \<Longrightarrow> 2 ^ (bit_length n - 1) \<le> n"
proof (induction n rule: bit_length.induct)
  case (1 n)
  show ?case
  proof (cases "n div 2 = 0")
    case True
    with "1.prems" show ?thesis
      by (simp add: bit_length.simps [of n] bit_length.simps [of 0])
  next
    case False
    with "1.IH" "1.prems" have IH: "2 ^ (bit_length (n div 2) - 1) \<le> n div 2" by simp
    from False have pos: "0 < bit_length (n div 2)"
      by (simp add: bit_length.simps [of "n div 2"])
    have "bit_length n - 1 = Suc (bit_length (n div 2) - 1)"
      using "1.prems" pos by (simp add: bit_length.simps [of n])
    then have "(2::nat) ^ (bit_length n - 1) = 2 * 2 ^ (bit_length (n div 2) - 1)" by simp
    also have "\<dots> \<le> 2 * (n div 2)" using IH by simp
    also have "\<dots> \<le> n" by simp
    finally show ?thesis .
  qed
qed

text \<open>An integer below \<open>2 ^ 53\<close> in size is its own binary64 number.\<close>

lemma binary64_small: "\<bar>z\<bar> < 2 ^ 53 \<Longrightarrow> binary64 z = Fin (of_int z)"
proof -
  assume "\<bar>z\<bar> < 2 ^ 53"
  then have "nat \<bar>z\<bar> < 2 ^ 53" by (simp add: nat_less_iff)
  then have "bit_length (nat \<bar>z\<bar>) \<le> 53" by (rule bit_length_le)
  then show ?thesis by (simp add: binary64_def Let_def)
qed

text \<open>The binary64 number of an integer is below 1 exactly when the integer is.\<close>

lemma below_one_binary64: "below_one (binary64 z) \<longleftrightarrow> z < 1"
proof (cases "bit_length (nat \<bar>z\<bar>) \<le> 53")
  case True
  then show ?thesis by (simp add: binary64_def Let_def)
next
  case False
  define a where "a = nat \<bar>z\<bar>"
  define sh where "sh = bit_length a - 53"
  define q where "q = a div 2 ^ sh"
  define q' where "q' = (if 2 ^ (sh - 1) < a mod 2 ^ sh \<or> (a mod 2 ^ sh = 2 ^ (sh - 1) \<and> odd q) then q + 1 else q)"
  define v where "v = q' * 2 ^ sh"
  from False have big: "53 < bit_length a" by (simp add: a_def)
  then have apos: "0 < a" by (cases "a = 0") (simp_all add: bit_length.simps [of 0])
  have "(2::nat) ^ sh \<le> 2 ^ (bit_length a - 1)"
    unfolding sh_def by (rule power_increasing) simp_all
  also have "\<dots> \<le> a" by (rule bit_length_ge [OF apos])
  finally have "1 \<le> q" unfolding q_def by (simp add: div_greater_zero_iff Suc_le_eq)
  then have "1 \<le> q'" by (simp add: q'_def)
  then have vpos: "1 \<le> v" unfolding v_def by (simp add: Suc_le_eq)
  have z0: "z \<noteq> 0" using apos by (simp add: a_def)
  have eq: "binary64 z =
      (if 2 ^ 1024 \<le> v then (if z < 0 then NegInfinity else PosInfinity)
       else Fin (of_int (if z < 0 then - int v else int v)))"
    unfolding binary64_def Let_def v_def q'_def q_def sh_def a_def
    by (simp only: False if_False)
  show ?thesis
  proof (cases "z < 0")
    case True
    then show ?thesis using vpos by (simp add: eq)
  next
    case False
    with z0 have "\<not> z < 1" by simp
    moreover have "\<not> below_one (binary64 z)"
      using False vpos by (simp add: eq)
    ultimately show ?thesis by simp
  qed
qed

lemma leading_integer_None_iff: "leading_integer s = None \<longleftrightarrow> no_leading_digit s"
proof -
  define t where "t = dropWhile is_space s"
  have l: "leading_integer s =
      (let (sign, u) = (case t of
                         [] \<Rightarrow> (1, [])
                       | c # r \<Rightarrow> if c = 45 then (- 1, r)
                                  else if c = 43 then (1, r) else (1, t));
          ds = takeWhile is_digit u
      in if ds = [] then None else Some (sign * digits_value ds))"
    unfolding leading_integer_def t_def by (simp add: Let_def)
  have n: "no_leading_digit s =
     (case t of
        [] \<Rightarrow> True
      | c # r \<Rightarrow>
          if c = 45 \<or> c = 43 then (case r of [] \<Rightarrow> True | d # r' \<Rightarrow> \<not> is_digit d)
          else \<not> is_digit c)"
    unfolding no_leading_digit_def t_def by simp
  show ?thesis
  proof (cases t)
    case Nil
    then show ?thesis by (simp add: l n)
  next
    case (Cons c r)
    then show ?thesis
      by (cases r) (auto simp: l n Let_def)
  qed
qed

text \<open>What the second test of the handler does with a string that is refused.\<close>

lemma refused_page_parseInt:
  assumes "refused_page s"
  shows "parseInt s = None \<or> (\<exists>x. parseInt s = Some x \<and> below_one x)"
proof (cases "leading_integer s")
  case None
  then show ?thesis by (simp add: parseInt_def)
next
  case (Some z)
  then have "\<not> no_leading_digit s"
    using leading_integer_None_iff [of s] by simp
  with assms Some have "z < 1" by (simp add: refused_page_def)
  with Some show ?thesis by (simp add: parseInt_def below_one_binary64)
qed

lemma leading_integer_examples:
  "leading_integer (ascii ''0'') = Some 0" "leading_integer (ascii ''-1'') = Some (- 1)"
  "leading_integer (ascii ''abc'') = None" "leading_integer (ascii ''12abc'') = Some 12"
  "leading_integer (ascii ''10'') = Some 10" "leading_integer (ascii ''1'') = Some 1"
  "leading_integer [0x2003, 48] = Some 0"
  by (simp_all add: leading_integer_def ascii_def is_space_def is_digit_def digits_value_def)

lemma parseInt_examples:
  "parseInt (ascii ''12abc'') = Some (Fin 12)" "parseInt (ascii ''10'') = Some (Fin 10)"
  "parseInt (ascii ''1'') = Some (Fin 1)"
  by (simp_all add: parseInt_def leading_integer_examples binary64_small)

text \<open>
  Claim C2, as amended. For a request to \<^verbatim>\<open>GET /api/search-foods\<close> whose \<^verbatim>\<open>query\<close> is a
  string that is not empty, and whose \<^verbatim>\<open>pageSize\<close> and \<^verbatim>\<open>pageNumber\<close> are strings (or
  absent, or arrays or objects that convert to strings): when \<^verbatim>\<open>pageSize\<close> or
  \<^verbatim>\<open>pageNumber\<close> is a string from which \<^verbatim>\<open>parseInt\<close> reads an integer below 1 (as from
  \<^verbatim>\<open>pageSize=0\<close> and \<^verbatim>\<open>pageNumber=-1\<close>) or no number at all (after leading white space and
  one sign, if there is one, no decimal digit follows), the answer is status 400 with the
  error \<^verbatim>\<open>Invalid pageSize or pageNumber parameters.\<close> and no outbound call is made.
\<close>

theorem bad_paging_rejected:
  assumes "map_of reqQuery ''query'' = Some (QStr query)" and "query \<noteq> []"
    and "to_string P (case map_of reqQuery ''pageSize'' of None \<Rightarrow> QStr (ascii ''10'') | Some v \<Rightarrow> v) = Inr s"
    and "to_string P (case map_of reqQuery ''pageNumber'' of None \<Rightarrow> QStr (ascii ''1'') | Some v \<Rightarrow> v) = Inr t"
    and "refused_page s \<or> refused_page t"
  shows "searchFoods P env reqQuery reply =
           (\<lparr>status = 400, body = JObj [(''error'', JStr ''Invalid pageSize or pageNumber parameters.'')]\<rparr>, [])"
proof -
  from assms(5) have "parseInt s = None \<or> parseInt t = None
      \<or> (\<exists>x y. parseInt s = Some x \<and> parseInt t = Some y \<and> (below_one x \<or> below_one y))"
    using refused_page_parseInt [of s] refused_page_parseInt [of t]
    by (cases "parseInt s"; cases "parseInt t") auto
  then show ?thesis
    using assms(1,2)
    by (auto simp: searchFoods_def assms(3,4) bad_paging_def error_json_def Let_def
        split: option.splits)
qed

theorem bad_paging_rejected_witness:
  "list_all (\<lambda>reqQuery. \<forall>P reply.
       searchFoods P \<lparr>env_GROQ_API_KEY = None, env_USDA_API_KEY = None\<rparr> reqQuery reply =
         (\<lparr>status = 400, body = JObj [(''error'', JStr ''Invalid pageSize or pageNumber parameters.'')]\<rparr>, []))
     [[(''query'', QStr (ascii ''apple'')), (''pageSize'', QStr (ascii ''0''))],
      [(''query'', QStr (ascii ''apple'')), (''pageNumber'', QStr (ascii ''-1''))],
      [(''query'', QStr (ascii ''apple'')), (''pageSize'', QStr (ascii ''abc''))]]"
proof -
  have r: "refused_page (ascii ''0'')" "refused_page (ascii ''-1'')" "refused_page (ascii ''abc'')"
    by (simp_all add: refused_page_def leading_integer_None_iff [symmetric] leading_integer_examples)
  have q: "ascii ''apple'' \<noteq> []"
    by (simp add: ascii_def)
  show ?thesis
    using bad_paging_rejected [of "[(''query'', QStr (ascii ''apple'')), (''pageSize'', QStr (ascii ''0''))]"
        "ascii ''apple''" _ "ascii ''0''" "ascii ''1''"]
      bad_paging_rejected [of "[(''query'', QStr (ascii ''apple'')), (''pageNumber'', QStr (ascii ''-1''))]"
        "ascii ''apple''" _ "ascii ''10''" "ascii ''-1''"]
      bad_paging_rejected [of "[(''query'', QStr (ascii ''apple'')), (''pageSize'', QStr (ascii ''abc''))]"
        "ascii ''apple''" _ "ascii ''abc''" "ascii ''1''"]
    by (simp add: r q)
qed

text \<open>The claim as stated fails twice. \<^verbatim>\<open>pageSize=12abc\<close> is not a number, but
  \<^verbatim>\<open>parseInt\<close> reads 12 from it: the food database is called and its answer passed on.
  And without a \<^verbatim>\<open>query\<close>, \<^verbatim>\<open>pageSize=0\<close> is answered with the error of the first test,
  not with the paging error.\<close>

theorem paging_claim_counterexample:
  "\<forall>P. searchFoods P \<lparr>env_GROQ_API_KEY = None, env_USDA_API_KEY = None\<rparr>
      [(''query'', QStr (ascii ''apple'')), (''pageSize'', QStr (ascii ''12abc''))]
      (Fetched True 200 (Inr (JObj [(''foods'', JArr [])])))
     = (\<lparr>status = 200, body = JObj [(''foods'', JArr [])]\<rparr>,
        [FoodSearch ''DEMO_KEY'' (ascii ''apple'') (Fin 12) (Fin 1)])
   \<and> searchFoods P \<lparr>env_GROQ_API_KEY = None, env_USDA_API_KEY = None\<rparr>
      [(''pageSize'', QStr (ascii ''0''))] (Fetched True 200 (Inr (JObj [(''foods'', JArr [])])))
     = (\<lparr>status = 400, body = JObj [(''error'', JStr ''Invalid request. query parameter is required.'')]\<rparr>, [])"
proof -
  have "well_formed (ascii ''apple'')" by (simp add: ascii_def)
  moreover have "ascii ''apple'' \<noteq> []" by (simp add: ascii_def)
  ultimately show ?thesis
    by (simp add: searchFoods_def parseInt_examples search_from_reply_def USDA_API_KEY_def
        bad_query_def error_json_def)
qed

text \<open>Further facts of the model, for the record: an object with an own \<^verbatim>\<open>toString\<close> as
  \<^verbatim>\<open>pageSize\<close> makes \<^verbatim>\<open>parseInt\<close> throw, which the \<^verbatim>\<open>catch\<close> block answers with status
  500; and the number sent for sixteen digits is the binary64 number, not the integer.\<close>

lemma unconvertible_page:
  "searchFoods P env [(''query'', QStr (ascii ''apple'')),
                      (''pageSize'', QObj [(''toString'', QStr (ascii ''5''))])] reply =
     (\<lparr>status = 500, body = JObj [(''error'', JStr (notPrimitive P))]\<rparr>, [])"
  by (simp add: searchFoods_def caught_def error_json_def ascii_def)

lemma bit_length_example: "bit_length 9007199254740993 = 54"
  by (simp add: bit_length.simps)

lemma binary64_rounds: "binary64 9007199254740993 = Fin 9007199254740992"
  by (simp add: binary64_def Let_def bit_length_example)

end
